theory Spec2Isabelle
  imports Complex_Main "HOL-Library.Sublist"
begin

section \<open>Python values of the lead-intake function\<close>

text \<open>
  The handler of \<^verbatim>\<open>function_app.py\<close> works on the value that \<^verbatim>\<open>json.loads\<close> returns.
  A JSON object is kept as the list of its members in the order of the text; Python's
  dict keeps the last value of a repeated key, so a lookup reads the list from its end.
  A float is idealised as a real number (only its truth value is ever inspected).
\<close>

datatype json =
    JNull
  | JBool bool
  | JInt int
  | JFloat real
  | JStr string
  | JArr "json list"
  | JObj "(string \<times> json) list"

text \<open>The exceptions the code can meet; \<open>Raised\<close> is one thrown by a library
  (\<^verbatim>\<open>requests\<close>, \<^verbatim>\<open>pycountry\<close>, \<^verbatim>\<open>Response.json\<close>) with its text.\<close>

datatype exn =
    AttributeError
  | TypeError
  | KeyError
  | IndexError
  | ValueError
  | UnicodeDecodeError
  | Raised string

text \<open>\<^verbatim>\<open>bool(v)\<close>: None, False, zero, the empty string, list and dict are falsy.\<close>

fun truthy :: "json \<Rightarrow> bool" where
  "truthy JNull = False"
| "truthy (JBool b) = b"
| "truthy (JInt i) = (i \<noteq> 0)"
| "truthy (JFloat x) = (x \<noteq> 0)"
| "truthy (JStr s) = (s \<noteq> [])"
| "truthy (JArr xs) = (xs \<noteq> [])"
| "truthy (JObj kvs) = (kvs \<noteq> [])"

text \<open>\<^verbatim>\<open>d.get(k)\<close> on a dict: None when the key is absent.\<close>

definition dict_get :: "(string \<times> json) list \<Rightarrow> string \<Rightarrow> json option" where
  "dict_get kvs k = map_of (rev kvs) k"

text \<open>\<^verbatim>\<open>d.get(k, default)\<close> on a dict.\<close>

definition dict_get_default :: "(string \<times> json) list \<Rightarrow> string \<Rightarrow> json \<Rightarrow> json" where
  "dict_get_default kvs k d = (case dict_get kvs k of None \<Rightarrow> d | Some v \<Rightarrow> v)"

text \<open>\<^verbatim>\<open>not d.get(k)\<close>: the absent key gives None, which is falsy.\<close>

definition falsy_field :: "(string \<times> json) list \<Rightarrow> string \<Rightarrow> bool" where
  "falsy_field kvs k = (case dict_get kvs k of None \<Rightarrow> True | Some v \<Rightarrow> \<not> truthy v)"

text \<open>\<^verbatim>\<open>v in codes\<close> for a list of strings: \<open>==\<close> against each member, which only a
  string can satisfy.\<close>

fun py_in :: "json \<Rightarrow> string list \<Rightarrow> bool" where
  "py_in (JStr s) codes = (s \<in> set codes)"
| "py_in _ codes = False"

section \<open>Territory classification\<close>

text \<open>The two literal lists; the source holds each of them twice, with the same members
  in the same order, in \<^verbatim>\<open>update_company_properties\<close> and in \<^verbatim>\<open>HubspotAdd\<close>.\<close>

definition filtered_country_codes :: "string list" where
  "filtered_country_codes =
    [''AG'', ''AI'', ''AW'', ''BS'', ''BB'', ''BZ'', ''BM'', ''CA'', ''CR'', ''CU'', ''CW'', ''DM'', ''DO'',
     ''SV'', ''GD'', ''GP'', ''GT'', ''HT'', ''HN'', ''JM'', ''MQ'', ''MX'', ''MS'', ''NI'', ''PA'', ''PR'',
     ''KN'', ''LC'', ''MF'', ''PM'', ''VC'', ''SX'', ''TT'', ''US'', ''VG'', ''VI'',
     ''AS'', ''AU'', ''CK'', ''FJ'', ''PF'', ''GU'', ''KI'', ''MH'', ''FM'', ''NR'', ''NC'', ''NZ'', ''NU'',
     ''NF'', ''MP'', ''PW'', ''PG'', ''PN'', ''WS'', ''SB'', ''TK'', ''TO'', ''TV'', ''VU'', ''WF'',
     ''AR'', ''BO'', ''BR'', ''CL'', ''CO'', ''EC'', ''FK'', ''GF'', ''GY'', ''PY'', ''PE'', ''SR'', ''UY'', ''VE'']"

definition a_rated_countries :: "string list" where
  "a_rated_countries =
    [''US'', ''CA'', ''AU'', ''NZ'', ''GB'', ''DE'', ''FR'', ''NL'',
     ''SE'', ''CH'', ''NO'', ''FI'', ''DK'', ''BE'', ''AT'', ''JP'',
     ''KR'', ''SG'']"

definition sales_office :: "json \<Rightarrow> string" where
  "sales_office user_country =
     (if py_in user_country filtered_country_codes then ''BPA US'' else ''BPA CH'')"

definition market_type :: "json \<Rightarrow> string" where
  "market_type user_country =
     (if py_in user_country a_rated_countries then ''A'' else ''B'')"

definition sales_account_manager :: "json \<Rightarrow> string" where
  "sales_account_manager user_country =
     (if sales_office user_country = ''BPA US'' then ''Sebastien Rocco'' else ''Damien Emery'')"

subsection \<open>The Glossary's sets, as the specification lists them\<close>

definition glossary_filtered_country_set :: "string set" where
  "glossary_filtered_country_set =
    {''AG'', ''AI'', ''AW'', ''BS'', ''BB'', ''BZ'', ''BM'', ''CA'', ''CR'', ''CU'', ''CW'', ''DM'',
     ''DO'', ''SV'', ''GD'', ''GP'', ''GT'', ''HT'', ''HN'', ''JM'', ''MQ'', ''MX'', ''MS'', ''NI'',
     ''PA'', ''PR'', ''KN'', ''LC'', ''MF'', ''PM'', ''VC'', ''SX'', ''TT'', ''US'', ''VG'', ''VI'',
     ''AS'', ''AU'', ''CK'', ''FJ'', ''PF'', ''GU'', ''KI'', ''MH'', ''FM'', ''NR'', ''NC'', ''NZ'',
     ''NU'', ''NF'', ''MP'', ''PW'', ''PG'', ''PN'', ''WS'', ''SB'', ''TK'', ''TO'', ''TV'', ''VU'',
     ''WF'', ''AR'', ''BO'', ''BR'', ''CL'', ''CO'', ''EC'', ''FK'', ''GF'', ''GY'', ''PY'', ''PE'',
     ''SR'', ''UY'', ''VE''}"

definition glossary_a_rated_tier_set :: "string set" where
  "glossary_a_rated_tier_set =
    {''US'', ''CA'', ''AU'', ''NZ'', ''GB'', ''DE'', ''FR'', ''NL'', ''SE'', ''CH'', ''NO'', ''FI'',
     ''DK'', ''BE'', ''AT'', ''JP'', ''KR'', ''SG''}"

section \<open>The outside world: outbound calls, clock, configuration\<close>

type_synonym headers = "(string \<times> string) list"

text \<open>The four addresses the code builds; the id or e-mail put into the f-string is kept
  as the value it is.\<close>

datatype url =
    ContactsUrl
  | ContactByEmailUrl json
  | AssociationsUrl json
  | CompanyUrl json

text \<open>What the function does to the outside, in order.\<close>

datatype event =
    HttpPost url headers json
  | HttpPatch url headers json
  | HttpGet url headers
  | Sleep real

text \<open>A \<^verbatim>\<open>requests.Response\<close>: \<^verbatim>\<open>status_code\<close>, \<^verbatim>\<open>text\<close>, and what \<^verbatim>\<open>.json()\<close>
  gives (it raises when the text is not JSON).\<close>

record crm_response =
  crm_status :: int
  crm_text :: string
  crm_json :: "exn + json"

datatype http_result = Fails exn | Responds crm_response

text \<open>
  The environment of one invocation. \<open>http n\<close> is the outcome of the \<open>n\<close>-th outbound
  call (counted from 0). \<open>countries_get\<close> is \<^verbatim>\<open>pycountry.countries.get(alpha_2=...)\<close>,
  a library outside the repository: it yields the country's name, nothing, or raises.
  \<open>token\<close> is \<^verbatim>\<open>os.environ.get("HUBSPOT_TOKEN")\<close> and \<open>utcnow\<close> the ISO text of the clock.
\<close>

record env =
  countries_get :: "json \<Rightarrow> exn + string option"
  token :: "string option"
  utcnow :: string
  http :: "nat \<Rightarrow> http_result"

fun is_http :: "event \<Rightarrow> bool" where
  "is_http (Sleep d) = False"
| "is_http _ = True"

definition send :: "env \<Rightarrow> event \<Rightarrow> event list \<Rightarrow> http_result \<times> event list" where
  "send e ev tr = (http e (length (filter is_http tr)), tr @ [ev])"

text \<open>\<^verbatim>\<open>time.sleep(d)\<close> raises ValueError on a negative length. The delay is a Python
  number, an int at the call sites and a float once multiplied by 1.5; it is idealised as
  a real, which is exact for the values the handler reaches (2, 3.0, 4.5, 6.75).\<close>

definition time_sleep :: "real \<Rightarrow> event list \<Rightarrow> exn + event list" where
  "time_sleep d tr = (if d < 0 then Inl ValueError else Inr (tr @ [Sleep d]))"

section \<open>Subscripts and attribute access on parsed JSON\<close>

text \<open>\<^verbatim>\<open>v["key"]\<close>: KeyError on a dict without the key, TypeError on anything else.\<close>

fun subscript_key :: "json \<Rightarrow> string \<Rightarrow> exn + json" where
  "subscript_key (JObj kvs) k = (case dict_get kvs k of None \<Rightarrow> Inl KeyError | Some v \<Rightarrow> Inr v)"
| "subscript_key _ k = Inl TypeError"

text \<open>\<^verbatim>\<open>v[0]\<close>.\<close>

fun subscript_0 :: "json \<Rightarrow> exn + json" where
  "subscript_0 (JArr []) = Inl IndexError"
| "subscript_0 (JArr (x # xs)) = Inr x"
| "subscript_0 (JStr []) = Inl IndexError"
| "subscript_0 (JStr (c # cs)) = Inr (JStr [c])"
| "subscript_0 (JObj kvs) = Inl KeyError"
| "subscript_0 _ = Inl TypeError"

text \<open>\<^verbatim>\<open>v.get(k)\<close>: only a dict has the method.\<close>

fun get_method :: "json \<Rightarrow> string \<Rightarrow> exn + json option" where
  "get_method (JObj kvs) k = Inr (dict_get kvs k)"
| "get_method _ k = Inl AttributeError"

section \<open>\<^verbatim>\<open>wait_for_company_association\<close>\<close>

text \<open>The \<^verbatim>\<open>try\<close> block of one attempt up to its \<^verbatim>\<open>return\<close>: the company id, nothing
  found, or the exception that leaves the block.\<close>

definition association_attempt :: "http_result \<Rightarrow> exn + json option" where
  "association_attempt r =
     (case r of
        Fails e \<Rightarrow> Inl e
      | Responds resp \<Rightarrow>
          if crm_status resp = 200 then
            (case crm_json resp of
               Inl e \<Rightarrow> Inl e
             | Inr associations_data \<Rightarrow>
                 (case get_method associations_data ''results'' of
                    Inl e \<Rightarrow> Inl e
                  | Inr None \<Rightarrow> Inr None
                  | Inr (Some results) \<Rightarrow>
                      if truthy results then
                        (case subscript_0 results of
                           Inl e \<Rightarrow> Inl e
                         | Inr first \<Rightarrow>
                             (case subscript_key first ''toObjectId'' of
                                Inl e \<Rightarrow> Inl e
                              | Inr company_id \<Rightarrow> Inr (Some company_id)))
                      else Inr None))
          else Inr None)"

datatype attempt_outcome =
    Found json "event list"
  | Again real "event list"
  | Escaped exn "event list"

text \<open>The \<^verbatim>\<open>except\<close> clause: it sleeps when attempts remain and leaves \<open>delay\<close> as it is;
  an exception raised inside it leaves the function.\<close>

definition except_clause :: "int \<Rightarrow> int \<Rightarrow> real \<Rightarrow> event list \<Rightarrow> attempt_outcome" where
  "except_clause attempt max_retries delay tr =
     (if attempt < max_retries - 1 then
        (case time_sleep delay tr of
           Inl e \<Rightarrow> Escaped e tr
         | Inr tr' \<Rightarrow> Again delay tr')
      else Again delay tr)"

definition try_attempt ::
  "env \<Rightarrow> json \<Rightarrow> headers \<Rightarrow> int \<Rightarrow> int \<Rightarrow> real \<Rightarrow> event list \<Rightarrow> attempt_outcome" where
  "try_attempt e contact_id hs max_retries attempt delay tr =
     (case send e (HttpGet (AssociationsUrl contact_id) hs) tr of
        (r, tr1) \<Rightarrow>
          (case association_attempt r of
             Inl ex \<Rightarrow> except_clause attempt max_retries delay tr1
           | Inr (Some company_id) \<Rightarrow> Found company_id tr1
           | Inr None \<Rightarrow>
               if attempt < max_retries - 1 then
                 (case time_sleep delay tr1 of
                    Inl ex \<Rightarrow> except_clause attempt max_retries delay tr1
                  | Inr tr2 \<Rightarrow> Again (delay * 1.5) tr2)
               else Again delay tr1))"

text \<open>The loop over \<^verbatim>\<open>range(max_retries)\<close>. Python's None is \<open>JNull\<close>: the function
  returns it when the attempts are used up, and also at once when the id found is null.\<close>

function wait_loop ::
  "env \<Rightarrow> json \<Rightarrow> headers \<Rightarrow> int \<Rightarrow> int \<Rightarrow> real \<Rightarrow> event list
     \<Rightarrow> (exn + json) \<times> event list" where
  "wait_loop e contact_id hs max_retries attempt delay tr =
     (if attempt < max_retries then
        (case try_attempt e contact_id hs max_retries attempt delay tr of
           Found company_id tr' \<Rightarrow> (Inr company_id, tr')
         | Escaped ex tr' \<Rightarrow> (Inl ex, tr')
         | Again delay' tr' \<Rightarrow> wait_loop e contact_id hs max_retries (attempt + 1) delay' tr')
      else (Inr JNull, tr))"
  by pat_completeness auto
termination
  by (relation "measure (\<lambda>(e, contact_id, hs, max_retries, attempt, delay, tr).
        nat (max_retries - attempt))") auto

definition wait_for_company_association ::
  "env \<Rightarrow> json \<Rightarrow> headers \<Rightarrow> int \<Rightarrow> real \<Rightarrow> event list
     \<Rightarrow> (exn + json) \<times> event list" where
  "wait_for_company_association e contact_id hs max_retries delay tr =
     wait_loop e contact_id hs max_retries 0 delay tr"

section \<open>\<^verbatim>\<open>update_company_properties\<close>\<close>

text \<open>\<^verbatim>\<open>pycountry.countries.get(alpha_2=c) if c else None\<close>.\<close>

definition lookup_country :: "env \<Rightarrow> json \<Rightarrow> exn + string option" where
  "lookup_country e c = (if truthy c then countries_get e c else Inr None)"

definition company_update_data :: "json \<Rightarrow> string option \<Rightarrow> json" where
  "company_update_data user_country country =
     JObj [(''properties'', JObj (
       [(''bpa_sales_office'', JStr (sales_office user_country)),
        (''market_type'', JStr (market_type user_country)),
        (''sales_account_manager'', JStr (sales_account_manager user_country)),
        (''country_region_code'', user_country)]
       @ (case country of None \<Rightarrow> [] | Some name \<Rightarrow> [(''country'', JStr name)])))]"

text \<open>True only for a 200 answer; every exception inside is caught and gives False.\<close>

definition update_company_properties ::
  "env \<Rightarrow> json \<Rightarrow> json \<Rightarrow> headers \<Rightarrow> event list \<Rightarrow> bool \<times> event list" where
  "update_company_properties e company_id user_country hs tr =
     (case lookup_country e user_country of
        Inl ex \<Rightarrow> (False, tr)
      | Inr country \<Rightarrow>
          (case send e (HttpPatch (CompanyUrl company_id) hs
                          (company_update_data user_country country)) tr of
             (Fails ex, tr1) \<Rightarrow> (False, tr1)
           | (Responds resp, tr1) \<Rightarrow>
               (if crm_status resp = 200 then (True, tr1) else (False, tr1))))"

section \<open>The handler \<^verbatim>\<open>HubspotAdd\<close>\<close>

text \<open>The JSON bodies the handler writes: the empty text, \<^verbatim>\<open>{"message"}\<close>,
  \<^verbatim>\<open>{"message", "error": str(e)}\<close> and
  \<^verbatim>\<open>{"message", "timestamp", "company_updated"}\<close>.\<close>

datatype body =
    NoContent
  | Message string
  | MessageError string exn
  | Processed string string bool

record response =
  status_code :: int
  body :: body
  mimetype :: "string option"
  headers :: headers

datatype request_body = NotUtf8 | NotJson | Parsed json

record request =
  http_method :: string
  req_body :: request_body

definition json_response :: "int \<Rightarrow> body \<Rightarrow> response" where
  "json_response code b =
     \<lparr>status_code = code, body = b, mimetype = Some ''application/json'',
      headers = [(''Access-Control-Allow-Origin'', ''*'')]\<rparr>"

definition preflight_response :: response where
  "preflight_response =
     \<lparr>status_code = 200, body = NoContent, mimetype = None,
      headers = [(''Access-Control-Allow-Origin'', ''*''),
                 (''Access-Control-Allow-Methods'', ''POST, OPTIONS''),
                 (''Access-Control-Allow-Headers'', ''Content-Type, Authorization, User-Agent'')]\<rparr>"

datatype 'a step = Return response | Raise exn | Next 'a

text \<open>\<^verbatim>\<open>"UserDetails" in data\<close>: a key of a dict, a member of a list, a piece of a
  string; on None, a bool or a number it raises.\<close>

fun contains_user_details :: "json \<Rightarrow> exn + bool" where
  "contains_user_details (JObj kvs) = Inr (''UserDetails'' \<in> fst ` set kvs)"
| "contains_user_details (JArr xs) = Inr (JStr ''UserDetails'' \<in> set xs)"
| "contains_user_details (JStr s) = Inr (sublist ''UserDetails'' s)"
| "contains_user_details _ = Inl TypeError"

definition required_fields :: "string list" where
  "required_fields = [''Email'', ''FirstName'', ''LastName'']"

text \<open>The loop over \<open>required_fields\<close>: the first field whose value is falsy.\<close>

fun first_missing :: "string list \<Rightarrow> (string \<times> json) list \<Rightarrow> string option" where
  "first_missing [] user = None"
| "first_missing (field # rest) user =
     (if falsy_field user field then Some field else first_missing rest user)"

text \<open>
  From reading the body to the end of the required-field loop. What goes on is the dict
  \<open>data\<close> and the dict \<open>user\<close>: \<^verbatim>\<open>data["UserDetails"]\<close> raises TypeError unless
  \<open>data\<close> is a dict, and the first \<^verbatim>\<open>user.get(field)\<close> raises AttributeError unless
  \<open>user\<close> is one.
\<close>

definition validate :: "request \<Rightarrow> ((string \<times> json) list \<times> (string \<times> json) list) step" where
  "validate req =
     (case req_body req of
        NotUtf8 \<Rightarrow> Raise UnicodeDecodeError
      | NotJson \<Rightarrow> Return (json_response 400 (Message ''Invalid JSON format''))
      | Parsed data \<Rightarrow>
          (case contains_user_details data of
             Inl ex \<Rightarrow> Raise ex
           | Inr False \<Rightarrow> Return (json_response 400 (Message ''UserDetails is required''))
           | Inr True \<Rightarrow>
               (case subscript_key data ''UserDetails'' of
                  Inl ex \<Rightarrow> Raise ex
                | Inr user \<Rightarrow>
                    (case (data, user) of
                       (JObj d, JObj u) \<Rightarrow>
                         (case first_missing required_fields u of
                            Some field \<Rightarrow>
                              Return (json_response 400
                                        (Message (''Required field missing: '' @ field)))
                          | None \<Rightarrow> Next (d, u))
                     | _ \<Rightarrow> Raise AttributeError))))"

definition solution_map :: "(string \<times> string) list" where
  "solution_map =
    [(''BPACRM365'', ''BPA CRM 365''),
     (''BPAMedical365'', ''BPA Medical 365''),
     (''BPAQuality365'', ''BPA Quality 365''),
     (''CRMandProjectManagementbyBPA'', ''CRM & Project Management by BPA''),
     (''QualityandRiskManagementbyBPA'', ''Quality & Risk Management by BPA''),
     (''Solutionbuilder'', ''Solution builder'')]"

text \<open>\<^verbatim>\<open>solution_map.get(raw_solution, raw_solution)\<close>: a list or a dict cannot be
  hashed, so the lookup raises TypeError; only a string can equal a key.\<close>

fun solution_value :: "json \<Rightarrow> exn + json" where
  "solution_value (JArr xs) = Inl TypeError"
| "solution_value (JObj kvs) = Inl TypeError"
| "solution_value (JStr s) =
     (case map_of solution_map s of None \<Rightarrow> Inr (JStr s) | Some v \<Rightarrow> Inr (JStr v))"
| "solution_value raw_solution = Inr raw_solution"

definition contact_properties ::
  "(string \<times> json) list \<Rightarrow> (string \<times> json) list \<Rightarrow> json \<Rightarrow> string option \<Rightarrow> json" where
  "contact_properties data user solution country =
     JObj [(''properties'', JObj (
       [(''email'', dict_get_default user ''Email'' (JStr [])),
        (''firstname'', dict_get_default user ''FirstName'' (JStr [])),
        (''lastname'', dict_get_default user ''LastName'' (JStr [])),
        (''phone'', dict_get_default user ''Phone'' (JStr [])),
        (''company'', dict_get_default user ''Company'' (JStr [])),
        (''jobtitle'', dict_get_default user ''Title'' (JStr [])),
        (''country_code'', dict_get_default user ''Country'' (JStr [])),
        (''which_solution_are_you_interested_in_'', solution),
        (''lifecyclestage'', JStr ''marketingqualifiedlead''),
        (''hs_content_membership_notes'', dict_get_default data ''Description'' (JStr [])),
        (''lead_source'', JStr ''AzureMarketplace''),
        (''contact_origin'', JStr ''Marketplace''),
        (''account_type'', JStr ''Inbound Lead''),
        (''bpa_sales_office'', JStr (sales_office (dict_get_default user ''Country'' (JStr [])))),
        (''market_type'', JStr (market_type (dict_get_default user ''Country'' (JStr [])))),
        (''country_region_code'', dict_get_default user ''Country'' (JStr []))]
       @ (case country of
            None \<Rightarrow> []
          | Some name \<Rightarrow> [(''country'', JStr name), (''country_name'', JStr name)])))]"

text \<open>The statements that build \<^verbatim>\<open>hubspot_data\<close>, in the order of the source: the
  solution lookup, then the country lookup.\<close>

definition hubspot_data ::
  "env \<Rightarrow> (string \<times> json) list \<Rightarrow> (string \<times> json) list \<Rightarrow> exn + json" where
  "hubspot_data e data user =
     (case solution_value (dict_get_default data ''OfferTitle'' (JStr [])) of
        Inl ex \<Rightarrow> Inl ex
      | Inr solution \<Rightarrow>
          (case lookup_country e (dict_get_default user ''Country'' (JStr [])) of
             Inl ex \<Rightarrow> Inl ex
           | Inr country \<Rightarrow> Inr (contact_properties data user solution country)))"

definition bearer_headers :: "string \<Rightarrow> headers" where
  "bearer_headers t =
     [(''Authorization'', ''Bearer '' @ t), (''Content-Type'', ''application/json'')]"

text \<open>\<^verbatim>\<open>r.json()["id"]\<close>.\<close>

definition contact_id_of :: "crm_response \<Rightarrow> exn + json" where
  "contact_id_of r =
     (case crm_json r of Inl ex \<Rightarrow> Inl ex | Inr v \<Rightarrow> subscript_key v ''id'')"

text \<open>From the extraction of the contact id to the 200 answer. The flag
  \<^verbatim>\<open>company_updated\<close> is \<^verbatim>\<open>company_id is not None\<close>; the update itself runs when
  \<^verbatim>\<open>company_id\<close> is truthy, and its result is only logged.\<close>

definition resolve_company ::
  "env \<Rightarrow> (string \<times> json) list \<Rightarrow> headers \<Rightarrow> crm_response \<Rightarrow> bool \<Rightarrow> event list
     \<Rightarrow> (exn + response) \<times> event list" where
  "resolve_company e user hs r contact_created tr =
     (case contact_id_of r of
        Inl ex \<Rightarrow> (Inl ex, tr)
      | Inr contact_id \<Rightarrow>
          (case (if contact_created
                 then wait_for_company_association e contact_id hs 5 2 tr
                 else wait_for_company_association e contact_id hs 1 0 tr) of
             (Inl ex, tr1) \<Rightarrow> (Inl ex, tr1)
           | (Inr company_id, tr1) \<Rightarrow>
               (Inr (json_response 200
                       (Processed ''Lead processed successfully'' (utcnow e)
                          (company_id \<noteq> JNull))),
                (if truthy company_id
                 then snd (update_company_properties e company_id
                             (dict_get_default user ''Country'' (JStr [])) hs tr1)
                 else tr1))))"

text \<open>The body of the outer \<^verbatim>\<open>try\<close>: the response returned or the exception that
  leaves it, with the outbound calls made.\<close>

definition HubspotAdd_try :: "env \<Rightarrow> request \<Rightarrow> (exn + response) \<times> event list" where
  "HubspotAdd_try e req =
     (if http_method req = ''OPTIONS'' then (Inr preflight_response, [])
      else if http_method req \<noteq> ''POST'' then
        (Inr (json_response 405 (Message ''Only POST method allowed'')), [])
      else
        (case validate req of
           Return resp \<Rightarrow> (Inr resp, [])
         | Raise ex \<Rightarrow> (Inl ex, [])
         | Next (data, user) \<Rightarrow>
             (case hubspot_data e data user of
                Inl ex \<Rightarrow> (Inl ex, [])
              | Inr props \<Rightarrow>
                  (case token e of
                     None \<Rightarrow>
                       (Inr (json_response 500
                               (Message ''Server misconfiguration: missing token'')), [])
                   | Some t \<Rightarrow>
                       if t = [] then
                         (Inr (json_response 500
                                 (Message ''Server misconfiguration: missing token'')), [])
                       else
                         (case send e (HttpPost ContactsUrl (bearer_headers t) props) [] of
                            (Fails ex, tr) \<Rightarrow> (Inl ex, tr)
                          | (Responds r, tr) \<Rightarrow>
                              if crm_status r = 400 then
                                (Inr (json_response 400 (Message (crm_text r))), tr)
                              else if crm_status r = 409 then
                                (case dict_get user ''Email'' of
                                   None \<Rightarrow> (Inl KeyError, tr)
                                 | Some email \<Rightarrow>
                                     (case send e (HttpPatch (ContactByEmailUrl email)
                                                     (bearer_headers t) props) tr of
                                        (Fails patch_err, tr1) \<Rightarrow>
                                          (Inr (json_response 500
                                                  (MessageError ''PATCH update failed'' patch_err)),
                                           tr1)
                                      | (Responds r1, tr1) \<Rightarrow>
                                          if crm_status r1 = 400 then
                                            (Inr (json_response 400 (Message (crm_text r1))), tr1)
                                          else
                                            resolve_company e user (bearer_headers t) r1 False tr1))
                              else
                                resolve_company e user (bearer_headers t) r True tr)))))"

definition HubspotAdd :: "env \<Rightarrow> request \<Rightarrow> response \<times> event list" where
  "HubspotAdd e req =
     (case HubspotAdd_try e req of
        (Inl ex, tr) \<Rightarrow> (json_response 500 (MessageError ''Internal server error'' ex), tr)
      | (Inr resp, tr) \<Rightarrow> (resp, tr))"

section \<open>Notions used to state the properties\<close>

text \<open>A response the contract allows: a status in {200, 400, 405, 500} and the CORS
  header.\<close>

definition acceptable :: "response \<Rightarrow> bool" where
  "acceptable r = (status_code r \<in> {200, 400, 405, 500}
      \<and> map_of (headers r) ''Access-Control-Allow-Origin'' = Some ''*'')"

fun is_object :: "json \<Rightarrow> bool" where
  "is_object (JObj kvs) = True"
| "is_object _ = False"

text \<open>The body of a CRM answer is a JSON object with the key "id".\<close>

definition body_has_id :: "crm_response \<Rightarrow> bool" where
  "body_has_id r =
     (case crm_json r of Inr (JObj kvs) \<Rightarrow> ''id'' \<in> fst ` set kvs | _ \<Rightarrow> False)"

section \<open>Sample inputs\<close>

text \<open>A country table that knows one code, and one that raises on every value.\<close>

definition iso_names :: "json \<Rightarrow> exn + string option" where
  "iso_names c = (if c = JStr ''US'' then Inr (Some ''United States'') else Inr None)"

text \<open>Outbound calls answered from a list, in order; past its end the call fails.\<close>

definition script :: "http_result list \<Rightarrow> nat \<Rightarrow> http_result" where
  "script rs n = (if n < length rs then rs ! n else Fails (Raised ''connection refused''))"

definition answer :: "int \<Rightarrow> string \<Rightarrow> exn + json \<Rightarrow> http_result" where
  "answer code txt js = Responds \<lparr>crm_status = code, crm_text = txt, crm_json = js\<rparr>"

definition sample_env :: "string option \<Rightarrow> http_result list \<Rightarrow> env" where
  "sample_env tok rs =
     \<lparr>countries_get = iso_names, token = tok, utcnow = ''2024-05-01T12:00:00'',
      http = script rs\<rparr>"

definition sample_user :: "(string \<times> json) list" where
  "sample_user =
     [(''Email'', JStr ''ann@example.com''), (''FirstName'', JStr ''Ann''),
      (''LastName'', JStr ''Lee''), (''Country'', JStr ''US'')]"

definition post_of :: "json \<Rightarrow> request" where
  "post_of data = \<lparr>http_method = ''POST'', req_body = Parsed data\<rparr>"

definition sample_request :: request where
  "sample_request =
     post_of (JObj [(''UserDetails'', JObj sample_user), (''OfferTitle'', JStr ''BPACRM365'')])"

definition sample_properties :: json where
  "sample_properties =
     JObj [(''properties'', JObj
       [(''email'', JStr ''ann@example.com''),
        (''firstname'', JStr ''Ann''),
        (''lastname'', JStr ''Lee''),
        (''phone'', JStr []),
        (''company'', JStr []),
        (''jobtitle'', JStr []),
        (''country_code'', JStr ''US''),
        (''which_solution_are_you_interested_in_'', JStr ''BPA CRM 365''),
        (''lifecyclestage'', JStr ''marketingqualifiedlead''),
        (''hs_content_membership_notes'', JStr []),
        (''lead_source'', JStr ''AzureMarketplace''),
        (''contact_origin'', JStr ''Marketplace''),
        (''account_type'', JStr ''Inbound Lead''),
        (''bpa_sales_office'', JStr ''BPA US''),
        (''market_type'', JStr ''A''),
        (''country_region_code'', JStr ''US''),
        (''country'', JStr ''United States''),
        (''country_name'', JStr ''United States'')])]"

section \<open>Properties of the territory classification\<close>

lemma set_filtered_country_codes:
  "set filtered_country_codes = glossary_filtered_country_set"
  unfolding filtered_country_codes_def glossary_filtered_country_set_def
  by (simp only: list.set)

lemma set_a_rated_countries:
  "set a_rated_countries = glossary_a_rated_tier_set"
  unfolding a_rated_countries_def glossary_a_rated_tier_set_def
  by (simp only: list.set)

lemma py_in_image: "py_in c codes \<longleftrightarrow> c \<in> JStr ` set codes"
  by (cases c) auto

lemma length_a_rated_countries: "length a_rated_countries = 18 \<and> distinct a_rated_countries"
  unfolding a_rated_countries_def by simp

text \<open>
  C3. The territory classification follows the Glossary: for every value submitted as
  country, the sales office is "BPA US" exactly when it is a code of the Filtered country
  set and "BPA CH" otherwise; the market tier is "A" exactly when it is a code of the
  A-rated tier set, which has 18 members, and "B" otherwise; the account manager is
  "Sebastien Rocco" exactly when the sales office is "BPA US" and "Damien Emery" otherwise.
\<close>

theorem territory_classifier_follows_glossary:
  "(sales_office c = ''BPA US'') = (c \<in> JStr ` glossary_filtered_country_set)
   \<and> (sales_office c = ''BPA CH'') = (c \<notin> JStr ` glossary_filtered_country_set)
   \<and> (market_type c = ''A'') = (c \<in> JStr ` glossary_a_rated_tier_set)
   \<and> (market_type c = ''B'') = (c \<notin> JStr ` glossary_a_rated_tier_set)
   \<and> card glossary_a_rated_tier_set = 18
   \<and> (sales_account_manager c = ''Sebastien Rocco'') = (sales_office c = ''BPA US'')
   \<and> (sales_account_manager c = ''Damien Emery'') = (sales_office c \<noteq> ''BPA US'')"
proof -
  have "card glossary_a_rated_tier_set = 18"
    using length_a_rated_countries distinct_card[of a_rated_countries]
    by (simp add: set_a_rated_countries)
  then show ?thesis
    by (simp add: sales_office_def market_type_def sales_account_manager_def py_in_image
        set_filtered_country_codes set_a_rated_countries)
qed

section \<open>Dictionaries and the single-attempt poll\<close>

lemma dict_get_in_keys: "dict_get kvs k = Some v \<Longrightarrow> k \<in> fst ` set kvs"
  unfolding dict_get_def by (metis map_of_eq_None_iff option.distinct(1) set_rev)

lemma wait_single:
  "wait_for_company_association e cid hs 1 0 tr =
     (Inr (case association_attempt (http e (length (filter is_http tr))) of
             Inr (Some c) \<Rightarrow> c | _ \<Rightarrow> JNull),
      tr @ [HttpGet (AssociationsUrl cid) hs])"
  by (simp add: wait_for_company_association_def try_attempt_def send_def except_clause_def
      split: sum.splits option.splits)

section \<open>Every response is well formed\<close>

lemma acceptable_json_response:
  "acceptable (json_response c b) = (c \<in> {200, 400, 405, 500})"
  by (simp add: acceptable_def json_response_def)

lemma acceptable_preflight: "acceptable preflight_response"
  by (simp add: acceptable_def preflight_response_def)

lemma validate_acceptable: "validate req = Return r \<Longrightarrow> acceptable r"
  unfolding validate_def
  by (auto simp: acceptable_json_response
      split: request_body.splits sum.splits bool.splits json.splits option.splits)

lemma resolve_company_acceptable:
  "fst (resolve_company e u hs r b tr) = Inr resp \<Longrightarrow> acceptable resp"
  unfolding resolve_company_def
  by (auto simp: acceptable_json_response split: sum.splits prod.splits if_splits)

lemma try_acceptable: "fst (HubspotAdd_try e req) = Inr resp \<Longrightarrow> acceptable resp"
  unfolding HubspotAdd_try_def
  by (auto simp: acceptable_json_response acceptable_preflight
      dest: validate_acceptable resolve_company_acceptable
      split: step.splits sum.splits option.splits prod.splits if_splits http_result.splits)

lemma HubspotAdd_Inl:
  "HubspotAdd_try e req = (Inl ex, tr) \<Longrightarrow>
   HubspotAdd e req = (json_response 500 (MessageError ''Internal server error'' ex), tr)"
  by (simp add: HubspotAdd_def)

lemma HubspotAdd_Inr:
  "HubspotAdd_try e req = (Inr resp, tr) \<Longrightarrow> HubspotAdd e req = (resp, tr)"
  by (simp add: HubspotAdd_def)

text \<open>
  C6. Whatever the request and whatever the outside world answers, on every branch
  (preflight, 405, every 400, the missing-token 500, the 200 success, the catch-all 500)
  the response of the handler has a status among 200, 400, 405 and 500 and carries the
  header Access-Control-Allow-Origin with value "*".
\<close>

theorem response_invariant:
  "status_code (fst (HubspotAdd e req)) \<in> {200, 400, 405, 500}
   \<and> map_of (headers (fst (HubspotAdd e req))) ''Access-Control-Allow-Origin'' = Some ''*''"
proof -
  obtain x tr where run: "HubspotAdd_try e req = (x, tr)"
    by (cases "HubspotAdd_try e req") auto
  show ?thesis
  proof (cases x)
    case (Inl ex)
    with run show ?thesis
      by (simp add: HubspotAdd_Inl json_response_def)
  next
    case (Inr resp)
    with run have "acceptable resp"
      using try_acceptable[of e req resp] by simp
    with run Inr show ?thesis
      by (simp add: HubspotAdd_Inr acceptable_def)
  qed
qed

section \<open>From validation to the create call\<close>

lemma validate_Next_first_missing:
  "validate req = Next (d, u) \<Longrightarrow> first_missing required_fields u = None"
  unfolding validate_def
  by (auto split: request_body.splits sum.splits bool.splits json.splits option.splits)

lemma validate_Next_email:
  assumes "validate req = Next (d, u)"
  shows "\<exists>email. dict_get u ''Email'' = Some email \<and> truthy email"
  using validate_Next_first_missing[OF assms]
  by (auto simp: required_fields_def falsy_field_def split: if_splits option.splits)

lemma try_from_create:
  assumes "http_method req = ''POST''" "validate req = Next (d, u)"
    "hubspot_data e d u = Inr props" "token e = Some t" "t \<noteq> []"
  shows "HubspotAdd_try e req =
    (case http e 0 of
       Fails ex \<Rightarrow> (Inl ex, [HttpPost ContactsUrl (bearer_headers t) props])
     | Responds r \<Rightarrow>
         if crm_status r = 400 then
           (Inr (json_response 400 (Message (crm_text r))),
            [HttpPost ContactsUrl (bearer_headers t) props])
         else if crm_status r = 409 then
           (case dict_get u ''Email'' of
              None \<Rightarrow> (Inl KeyError, [HttpPost ContactsUrl (bearer_headers t) props])
            | Some email \<Rightarrow>
                (case http e 1 of
                   Fails patch_err \<Rightarrow>
                     (Inr (json_response 500 (MessageError ''PATCH update failed'' patch_err)),
                      [HttpPost ContactsUrl (bearer_headers t) props,
                       HttpPatch (ContactByEmailUrl email) (bearer_headers t) props])
                 | Responds r1 \<Rightarrow>
                     if crm_status r1 = 400 then
                       (Inr (json_response 400 (Message (crm_text r1))),
                        [HttpPost ContactsUrl (bearer_headers t) props,
                         HttpPatch (ContactByEmailUrl email) (bearer_headers t) props])
                     else resolve_company e u (bearer_headers t) r1 False
                        [HttpPost ContactsUrl (bearer_headers t) props,
                         HttpPatch (ContactByEmailUrl email) (bearer_headers t) props]))
         else resolve_company e u (bearer_headers t) r True
                [HttpPost ContactsUrl (bearer_headers t) props])"
  using assms
  by (simp add: HubspotAdd_try_def send_def split: http_result.splits option.splits)

lemma contact_id_of_no_id: "\<not> body_has_id r \<Longrightarrow> \<exists>ex. contact_id_of r = Inl ex"
  unfolding body_has_id_def contact_id_of_def
  by (cases "crm_json r"; simp; case_tac b; simp add: dict_get_def map_of_eq_None_iff split: option.splits)

section \<open>The sample request\<close>

lemmas sample_defs = sample_env_def sample_user_def sample_request_def post_of_def
  sample_properties_def iso_names_def script_def answer_def

lemma sample_validate:
  "validate sample_request =
     Next ([(''UserDetails'', JObj sample_user), (''OfferTitle'', JStr ''BPACRM365'')], sample_user)"
  by (simp add: validate_def sample_defs required_fields_def falsy_field_def dict_get_def)

lemma sample_hubspot_data:
  "hubspot_data (sample_env tok rs)
     [(''UserDetails'', JObj sample_user), (''OfferTitle'', JStr ''BPACRM365'')] sample_user
   = Inr sample_properties"
  by (simp add: hubspot_data_def sample_defs dict_get_default_def dict_get_def solution_map_def
      lookup_country_def contact_properties_def sales_office_def market_type_def
      filtered_country_codes_def a_rated_countries_def)

section \<open>Faults caught by the outer handler\<close>

text \<open>
  C9. A POST whose body is a JSON object binding the key UserDetails to a value that is
  not an object (a string, a number, a bool, a list or null) gets no 400: the first
  \<^verbatim>\<open>user.get\<close> raises AttributeError, the outer handler catches it and answers
  500 with the message "Internal server error"; no outbound call is made.
\<close>

theorem non_object_user_details_internal_error:
  assumes "http_method req = ''POST''" "req_body req = Parsed (JObj d)"
    "dict_get d ''UserDetails'' = Some v" "\<not> is_object v"
  shows "HubspotAdd e req =
     (json_response 500 (MessageError ''Internal server error'' AttributeError), [])"
proof -
  have "''UserDetails'' \<in> fst ` set d" using assms(3) by (rule dict_get_in_keys)
  with assms have "validate req = Raise AttributeError"
    by (cases v) (simp_all add: validate_def)
  with assms(1) have "HubspotAdd_try e req = (Inl AttributeError, [])"
    by (simp add: HubspotAdd_try_def)
  then show ?thesis by (rule HubspotAdd_Inl)
qed

theorem non_object_user_details_internal_error_witness:
  "dict_get [(''UserDetails'', JStr ''Ann'')] ''UserDetails'' = Some (JStr ''Ann'')
   \<and> \<not> is_object (JStr ''Ann'')
   \<and> HubspotAdd (sample_env (Some ''secret'') []) (post_of (JObj [(''UserDetails'', JStr ''Ann'')]))
       = (json_response 500 (MessageError ''Internal server error'' AttributeError), [])"
  using non_object_user_details_internal_error [of "post_of (JObj [(''UserDetails'', JStr ''Ann'')])"
      "[(''UserDetails'', JStr ''Ann'')]" "JStr ''Ann''" "sample_env (Some ''secret'') []"]
  by (simp add: post_of_def dict_get_def)

text \<open>
  C10. The contact id is read without a guard: when the request reaches the create call,
  the CRM answers it with a status other than 400 and 409 (a 5xx included) and the body
  of the answer is not a JSON object with the key "id", the handler answers 500 with the
  message "Internal server error" and the text of the exception raised by
  \<^verbatim>\<open>r.json()["id"]\<close>; the create call is the only outbound call, so neither the
  association poll nor the company update is reached.
\<close>

theorem missing_contact_id_internal_error:
  assumes "http_method req = ''POST''" "validate req = Next (d, u)"
    "hubspot_data e d u = Inr props" "token e = Some t" "t \<noteq> []"
    "http e 0 = Responds r" "crm_status r \<noteq> 400" "crm_status r \<noteq> 409"
    "\<not> body_has_id r"
  shows "\<exists>ex. contact_id_of r = Inl ex \<and> HubspotAdd e req =
     (json_response 500 (MessageError ''Internal server error'' ex),
      [HttpPost ContactsUrl (bearer_headers t) props])"
proof -
  from assms(9) obtain ex where ex: "contact_id_of r = Inl ex"
    using contact_id_of_no_id by blast
  have "HubspotAdd_try e req = (Inl ex, [HttpPost ContactsUrl (bearer_headers t) props])"
    using assms(6-8) ex
    by (simp add: try_from_create[OF assms(1-5)] resolve_company_def)
  then show ?thesis using ex by (simp add: HubspotAdd_Inl)
qed

theorem missing_contact_id_internal_error_witness:
  "\<not> body_has_id \<lparr>crm_status = 502, crm_text = ''Bad Gateway'', crm_json = Inl (Raised ''Expecting value'')\<rparr>
   \<and> HubspotAdd (sample_env (Some ''secret'') [answer 502 ''Bad Gateway'' (Inl (Raised ''Expecting value''))])
        sample_request
     = (json_response 500 (MessageError ''Internal server error'' (Raised ''Expecting value'')),
        [HttpPost ContactsUrl (bearer_headers ''secret'') sample_properties])"
  using missing_contact_id_internal_error [of sample_request _ sample_user
      "sample_env (Some ''secret'') [answer 502 ''Bad Gateway'' (Inl (Raised ''Expecting value''))]"
      sample_properties "''secret''"
      "\<lparr>crm_status = 502, crm_text = ''Bad Gateway'', crm_json = Inl (Raised ''Expecting value'')\<rparr>",
      OF _ sample_validate sample_hubspot_data]
  by (simp add: sample_defs body_has_id_def contact_id_of_def)

section \<open>Create-or-update reconciliation\<close>

lemma resolve_company_updated:
  assumes "contact_id_of r1 = Inr cid"
  shows "\<exists>found rest.
     resolve_company e u hs r1 False tr =
       (Inr (json_response 200 (Processed ''Lead processed successfully'' (utcnow e) found)),
        tr @ [HttpGet (AssociationsUrl cid) hs] @ rest)
     \<and> (rest = [] \<or> (\<exists>c name. rest =
           [HttpPatch (CompanyUrl c) hs
              (company_update_data (dict_get_default u ''Country'' (JStr [])) name)]))"
  using assms
  by (auto simp: resolve_company_def wait_single update_company_properties_def send_def
      split: sum.splits option.splits http_result.splits)

text \<open>
  C4. When the request reaches the create call and the CRM answers it with 409, the handler
  sends the update-by-e-mail PATCH, addressed with the submitted Email and carrying the
  same properties as the create POST. If that PATCH fails in transport the answer is 500
  with the message "PATCH update failed" and the error text; if the CRM answers it with
  400 the answer is 400 with the CRM's text as message; on any other answer the contact
  counts as updated, not created: once its id is read, the association is checked by one
  GET with no wait, the answer is 200, and the only call that may follow is the company
  update.
\<close>

theorem conflict_triggers_update_by_email:
  assumes "http_method req = ''POST''" "validate req = Next (d, u)"
    "hubspot_data e d u = Inr props" "token e = Some t" "t \<noteq> []"
    "http e 0 = Responds r" "crm_status r = 409"
  shows "\<exists>email. dict_get u ''Email'' = Some email
     \<and> take 2 (snd (HubspotAdd e req)) =
         [HttpPost ContactsUrl (bearer_headers t) props,
          HttpPatch (ContactByEmailUrl email) (bearer_headers t) props]
     \<and> (\<forall>err. http e 1 = Fails err \<longrightarrow>
          HubspotAdd e req =
            (json_response 500 (MessageError ''PATCH update failed'' err),
             [HttpPost ContactsUrl (bearer_headers t) props,
              HttpPatch (ContactByEmailUrl email) (bearer_headers t) props]))
     \<and> (\<forall>r1. http e 1 = Responds r1 \<longrightarrow> crm_status r1 = 400 \<longrightarrow>
          HubspotAdd e req =
            (json_response 400 (Message (crm_text r1)),
             [HttpPost ContactsUrl (bearer_headers t) props,
              HttpPatch (ContactByEmailUrl email) (bearer_headers t) props]))
     \<and> (\<forall>r1 cid. http e 1 = Responds r1 \<longrightarrow> crm_status r1 \<noteq> 400 \<longrightarrow>
          contact_id_of r1 = Inr cid \<longrightarrow>
          (\<exists>found rest.
             HubspotAdd e req =
               (json_response 200
                  (Processed ''Lead processed successfully'' (utcnow e) found),
                [HttpPost ContactsUrl (bearer_headers t) props,
                 HttpPatch (ContactByEmailUrl email) (bearer_headers t) props,
                 HttpGet (AssociationsUrl cid) (bearer_headers t)] @ rest)
             \<and> (rest = [] \<or> (\<exists>c name. rest =
                   [HttpPatch (CompanyUrl c) (bearer_headers t)
                      (company_update_data (dict_get_default u ''Country'' (JStr [])) name)]))))"
proof -
  obtain email where email: "dict_get u ''Email'' = Some email"
    using validate_Next_email[OF assms(2)] by blast
  let ?post = "HttpPost ContactsUrl (bearer_headers t) props"
  let ?patch = "HttpPatch (ContactByEmailUrl email) (bearer_headers t) props"
  have run: "HubspotAdd_try e req =
      (case http e 1 of
         Fails patch_err \<Rightarrow>
           (Inr (json_response 500 (MessageError ''PATCH update failed'' patch_err)),
            [?post, ?patch])
       | Responds r1 \<Rightarrow>
           if crm_status r1 = 400 then
             (Inr (json_response 400 (Message (crm_text r1))), [?post, ?patch])
           else resolve_company e u (bearer_headers t) r1 False [?post, ?patch])"
    using assms(6,7) email by (simp add: try_from_create[OF assms(1-5)])
  have fails: "HubspotAdd e req =
      (json_response 500 (MessageError ''PATCH update failed'' err), [?post, ?patch])"
    if "http e 1 = Fails err" for err
    using that run by (simp add: HubspotAdd_Inr)
  have rejects: "HubspotAdd e req =
      (json_response 400 (Message (crm_text r1)), [?post, ?patch])"
    if "http e 1 = Responds r1" "crm_status r1 = 400" for r1
    using that run by (simp add: HubspotAdd_Inr)
  have updated: "\<exists>found rest.
      HubspotAdd e req =
        (json_response 200 (Processed ''Lead processed successfully'' (utcnow e) found),
         [?post, ?patch, HttpGet (AssociationsUrl cid) (bearer_headers t)] @ rest)
      \<and> (rest = [] \<or> (\<exists>c name. rest =
            [HttpPatch (CompanyUrl c) (bearer_headers t)
               (company_update_data (dict_get_default u ''Country'' (JStr [])) name)]))"
    if "http e 1 = Responds r1" "crm_status r1 \<noteq> 400" "contact_id_of r1 = Inr cid" for r1 cid
  proof -
    from resolve_company_updated[OF that(3), of e u "bearer_headers t" "[?post, ?patch]"]
    obtain found rest where
      rc: "resolve_company e u (bearer_headers t) r1 False [?post, ?patch] =
        (Inr (json_response 200 (Processed ''Lead processed successfully'' (utcnow e) found)),
         [?post, ?patch] @ [HttpGet (AssociationsUrl cid) (bearer_headers t)] @ rest)"
      and rest: "rest = [] \<or> (\<exists>c name. rest =
            [HttpPatch (CompanyUrl c) (bearer_headers t)
               (company_update_data (dict_get_default u ''Country'' (JStr [])) name)])"
      by blast
    from run that(1,2) rc have "HubspotAdd e req =
        (json_response 200 (Processed ''Lead processed successfully'' (utcnow e) found),
         [?post, ?patch, HttpGet (AssociationsUrl cid) (bearer_headers t)] @ rest)"
      by (simp add: HubspotAdd_Inr)
    with rest show ?thesis by blast
  qed
  have two: "take 2 (snd (HubspotAdd e req)) = [?post, ?patch]"
  proof (cases "http e 1")
    case (Fails err)
    then show ?thesis by (simp add: fails)
  next
    case (Responds r1)
    show ?thesis
    proof (cases "crm_status r1 = 400")
      case True
      with Responds show ?thesis by (simp add: rejects)
    next
      case False
      obtain x tr where rc: "resolve_company e u (bearer_headers t) r1 False [?post, ?patch] = (x, tr)"
        by (cases "resolve_company e u (bearer_headers t) r1 False [?post, ?patch]") auto
      have "take 2 tr = [?post, ?patch]"
        using rc
        by (auto simp: resolve_company_def wait_single update_company_properties_def send_def
            split: sum.splits option.splits http_result.splits if_splits)
      moreover have "snd (HubspotAdd e req) = tr"
        using run Responds False rc by (cases x) (simp_all add: HubspotAdd_Inl HubspotAdd_Inr)
      ultimately show ?thesis by simp
    qed
  qed
  from email two fails rejects updated show ?thesis by blast
qed


lemmas sample_eval = sample_env_def sample_user_def script_def answer_def dict_get_def
  contact_id_of_def json_response_def

theorem conflict_triggers_update_by_email_witness:
  "HubspotAdd (sample_env (Some ''secret'') [answer 409 ''Conflict'' (Inr JNull)]) sample_request
     = (json_response 500 (MessageError ''PATCH update failed'' (Raised ''connection refused'')),
        [HttpPost ContactsUrl (bearer_headers ''secret'') sample_properties,
         HttpPatch (ContactByEmailUrl (JStr ''ann@example.com'')) (bearer_headers ''secret'')
           sample_properties])
   \<and> HubspotAdd (sample_env (Some ''secret'')
          [answer 409 ''Conflict'' (Inr JNull), answer 400 ''Property values were not valid'' (Inr JNull)])
        sample_request
     = (json_response 400 (Message ''Property values were not valid''),
        [HttpPost ContactsUrl (bearer_headers ''secret'') sample_properties,
         HttpPatch (ContactByEmailUrl (JStr ''ann@example.com'')) (bearer_headers ''secret'')
           sample_properties])
   \<and> status_code (fst (HubspotAdd (sample_env (Some ''secret'')
          [answer 409 ''Conflict'' (Inr JNull), answer 200 ''updated'' (Inr (JObj [(''id'', JInt 7)]))])
        sample_request)) = 200
   \<and> take 3 (snd (HubspotAdd (sample_env (Some ''secret'')
          [answer 409 ''Conflict'' (Inr JNull), answer 200 ''updated'' (Inr (JObj [(''id'', JInt 7)]))])
        sample_request))
     = [HttpPost ContactsUrl (bearer_headers ''secret'') sample_properties,
        HttpPatch (ContactByEmailUrl (JStr ''ann@example.com'')) (bearer_headers ''secret'')
          sample_properties,
        HttpGet (AssociationsUrl (JInt 7)) (bearer_headers ''secret'')]"
  using
    conflict_triggers_update_by_email [of sample_request _ sample_user
      "sample_env (Some ''secret'') [answer 409 ''Conflict'' (Inr JNull)]"
      sample_properties "''secret''" "\<lparr>crm_status = 409, crm_text = ''Conflict'', crm_json = Inr JNull\<rparr>",
      OF _ sample_validate sample_hubspot_data]
    conflict_triggers_update_by_email [of sample_request _ sample_user
      "sample_env (Some ''secret'')
          [answer 409 ''Conflict'' (Inr JNull), answer 400 ''Property values were not valid'' (Inr JNull)]"
      sample_properties "''secret''" "\<lparr>crm_status = 409, crm_text = ''Conflict'', crm_json = Inr JNull\<rparr>",
      OF _ sample_validate sample_hubspot_data]
    conflict_triggers_update_by_email [of sample_request _ sample_user
      "sample_env (Some ''secret'')
          [answer 409 ''Conflict'' (Inr JNull), answer 200 ''updated'' (Inr (JObj [(''id'', JInt 7)]))]"
      sample_properties "''secret''" "\<lparr>crm_status = 409, crm_text = ''Conflict'', crm_json = Inr JNull\<rparr>",
      OF _ sample_validate sample_hubspot_data]
  by (auto simp: sample_eval sample_request_def post_of_def)

section \<open>Required-field validation\<close>

lemma validate_object:
  assumes "req_body req = Parsed (JObj d)" "dict_get d ''UserDetails'' = Some (JObj u)"
  shows "validate req =
    (case first_missing required_fields u of
       Some field \<Rightarrow> Return (json_response 400 (Message (''Required field missing: '' @ field)))
     | None \<Rightarrow> Next (d, u))"
proof -
  have "''UserDetails'' \<in> fst ` set d" using assms(2) by (rule dict_get_in_keys)
  with assms show ?thesis by (simp add: validate_def)
qed

lemma try_validation_return:
  assumes "http_method req = ''POST''" "validate req = Return resp"
  shows "HubspotAdd e req = (resp, [])"
proof -
  from assms have "HubspotAdd_try e req = (Inr resp, [])"
    by (simp add: HubspotAdd_try_def)
  then show ?thesis by (rule HubspotAdd_Inr)
qed

text \<open>
  C5, as amended. For every POST whose body is a JSON object binding UserDetails to a JSON
  object, Email, FirstName and LastName are checked in this order; a field that is absent
  or whose value is falsy is rejected, and the first such field decides the answer: 400
  with the message "Required field missing: " followed by its name, with no outbound
  call. When none of the three is falsy the validation passes. (The claim as worded, for
  every body containing UserDetails, fails when UserDetails is not an object: see the
  theorem after the witness.)
\<close>

theorem required_fields_checked_in_order:
  assumes "http_method req = ''POST''" "req_body req = Parsed (JObj d)"
    "dict_get d ''UserDetails'' = Some (JObj u)"
  shows "(falsy_field u ''Email'' \<longrightarrow>
           HubspotAdd e req =
             (json_response 400 (Message ''Required field missing: Email''), []))
     \<and> (\<not> falsy_field u ''Email'' \<and> falsy_field u ''FirstName'' \<longrightarrow>
           HubspotAdd e req =
             (json_response 400 (Message ''Required field missing: FirstName''), []))
     \<and> (\<not> falsy_field u ''Email'' \<and> \<not> falsy_field u ''FirstName''
          \<and> falsy_field u ''LastName'' \<longrightarrow>
           HubspotAdd e req =
             (json_response 400 (Message ''Required field missing: LastName''), []))
     \<and> (\<not> falsy_field u ''Email'' \<and> \<not> falsy_field u ''FirstName''
          \<and> \<not> falsy_field u ''LastName'' \<longrightarrow> validate req = Next (d, u))"
  using try_validation_return[OF assms(1), of _ e]
  by (simp add: validate_object[OF assms(2,3)] required_fields_def)

theorem required_fields_checked_in_order_witness:
  "HubspotAdd (sample_env (Some ''secret'') [])
     (post_of (JObj [(''UserDetails'',
        JObj [(''Email'', JStr ''ann@example.com''), (''LastName'', JStr ''Lee'')])]))
   = (json_response 400 (Message ''Required field missing: FirstName''), [])
   \<and> HubspotAdd (sample_env (Some ''secret'') [])
     (post_of (JObj [(''UserDetails'',
        JObj [(''Email'', JStr []), (''LastName'', JNull)])]))
   = (json_response 400 (Message ''Required field missing: Email''), [])
   \<and> HubspotAdd (sample_env (Some ''secret'') [])
     (post_of (JObj [(''UserDetails'',
        JObj [(''Email'', JStr ''ann@example.com''), (''FirstName'', JStr ''Ann''),
              (''LastName'', JInt 0)])]))
   = (json_response 400 (Message ''Required field missing: LastName''), [])
   \<and> validate sample_request =
       Next ([(''UserDetails'', JObj sample_user), (''OfferTitle'', JStr ''BPACRM365'')],
             sample_user)"
  using
    required_fields_checked_in_order [of "post_of (JObj [(''UserDetails'',
        JObj [(''Email'', JStr ''ann@example.com''), (''LastName'', JStr ''Lee'')])])"
      "[(''UserDetails'',
        JObj [(''Email'', JStr ''ann@example.com''), (''LastName'', JStr ''Lee'')])]"
      "[(''Email'', JStr ''ann@example.com''), (''LastName'', JStr ''Lee'')]"
      "sample_env (Some ''secret'') []"]
    required_fields_checked_in_order [of "post_of (JObj [(''UserDetails'',
        JObj [(''Email'', JStr []), (''LastName'', JNull)])])"
      "[(''UserDetails'', JObj [(''Email'', JStr []), (''LastName'', JNull)])]"
      "[(''Email'', JStr []), (''LastName'', JNull)]"
      "sample_env (Some ''secret'') []"]
    required_fields_checked_in_order [of "post_of (JObj [(''UserDetails'',
        JObj [(''Email'', JStr ''ann@example.com''), (''FirstName'', JStr ''Ann''),
              (''LastName'', JInt 0)])])"
      "[(''UserDetails'',
        JObj [(''Email'', JStr ''ann@example.com''), (''FirstName'', JStr ''Ann''),
              (''LastName'', JInt 0)])]"
      "[(''Email'', JStr ''ann@example.com''), (''FirstName'', JStr ''Ann''),
              (''LastName'', JInt 0)]"
      "sample_env (Some ''secret'') []"]
    required_fields_checked_in_order [of sample_request
      "[(''UserDetails'', JObj sample_user), (''OfferTitle'', JStr ''BPACRM365'')]"
      sample_user "sample_env (Some ''secret'') []"]
  by (simp add: post_of_def sample_request_def sample_user_def dict_get_def falsy_field_def)

text \<open>With UserDetails bound to a string no field is present, yet the answer is the
  catch-all 500 and not a 400 naming Email.\<close>

theorem non_object_user_details_not_rejected_as_missing:
  "HubspotAdd (sample_env (Some ''secret'') []) (post_of (JObj [(''UserDetails'', JStr ''Ann'')]))
     = (json_response 500 (MessageError ''Internal server error'' AttributeError), [])
   \<and> status_code (fst (HubspotAdd (sample_env (Some ''secret'') [])
         (post_of (JObj [(''UserDetails'', JStr ''Ann'')])))) \<noteq> 400"
  by (simp add: HubspotAdd_def HubspotAdd_try_def validate_def post_of_def dict_get_def
      json_response_def)

section \<open>The missing token\<close>

lemma solution_value_fault:
  "(\<exists>ex. solution_value v = Inl ex) \<longleftrightarrow> (\<exists>xs. v = JArr xs) \<or> (\<exists>kvs. v = JObj kvs)"
  by (cases v) (auto split: option.splits)

lemma hubspot_data_fault:
  "(\<exists>ex. hubspot_data e d u = Inl ex) \<longleftrightarrow>
     (\<exists>ex. solution_value (dict_get_default d ''OfferTitle'' (JStr [])) = Inl ex)
     \<or> (\<exists>ex. lookup_country e (dict_get_default u ''Country'' (JStr [])) = Inl ex)"
  by (auto simp: hubspot_data_def split: sum.splits)

text \<open>
  C7, as amended. For every POST that passes the input validation, when the CRM token is
  absent (or empty) the handler makes no outbound call at all; its answer is 500 with the
  message "Server misconfiguration: missing token" whenever the contact properties are
  built without a fault, and the catch-all 500 when building them raises (an OfferTitle
  that is a list or an object, a country lookup that raises), since the properties are
  built before the token is read.
\<close>

theorem missing_token_detected_locally:
  assumes "http_method req = ''POST''" "validate req = Next (d, u)"
    "token e = None \<or> token e = Some []"
  shows "snd (HubspotAdd e req) = []
     \<and> (\<forall>props. hubspot_data e d u = Inr props \<longrightarrow>
          HubspotAdd e req =
            (json_response 500 (Message ''Server misconfiguration: missing token''), []))
     \<and> (\<forall>ex. hubspot_data e d u = Inl ex \<longrightarrow>
          HubspotAdd e req =
            (json_response 500 (MessageError ''Internal server error'' ex), []))"
  using assms
  by (auto simp: HubspotAdd_def HubspotAdd_try_def split: sum.splits)

theorem missing_token_detected_locally_witness:
  "token (sample_env None []) = None
   \<and> HubspotAdd (sample_env None []) sample_request =
       (json_response 500 (Message ''Server misconfiguration: missing token''), [])
   \<and> HubspotAdd (sample_env (Some []) []) sample_request =
       (json_response 500 (Message ''Server misconfiguration: missing token''), [])"
  using
    missing_token_detected_locally [of sample_request _ sample_user "sample_env None []", OF _ sample_validate]
    missing_token_detected_locally [of sample_request _ sample_user "sample_env (Some []) []", OF _ sample_validate]
    sample_hubspot_data [of None "[]"] sample_hubspot_data [of "Some []" "[]"]
  by (simp add: sample_env_def sample_request_def post_of_def)

text \<open>A validated POST with a list as OfferTitle and no token: the dict lookup of the
  solution raises TypeError before the token is read, so the answer is not the
  missing-token one.\<close>

theorem unhashable_offer_title_precedes_token_check:
  "validate (post_of (JObj [(''UserDetails'', JObj sample_user), (''OfferTitle'', JArr [])]))
     = Next ([(''UserDetails'', JObj sample_user), (''OfferTitle'', JArr [])], sample_user)
   \<and> token (sample_env None []) = None
   \<and> HubspotAdd (sample_env None [])
        (post_of (JObj [(''UserDetails'', JObj sample_user), (''OfferTitle'', JArr [])]))
     = (json_response 500 (MessageError ''Internal server error'' TypeError), [])
   \<and> fst (HubspotAdd (sample_env None [])
        (post_of (JObj [(''UserDetails'', JObj sample_user), (''OfferTitle'', JArr [])])))
     \<noteq> json_response 500 (Message ''Server misconfiguration: missing token'')"
  by (simp add: HubspotAdd_def HubspotAdd_try_def validate_def post_of_def dict_get_def
      json_response_def sample_user_def required_fields_def falsy_field_def hubspot_data_def
      dict_get_default_def sample_env_def)

section \<open>The empty string and the absent field\<close>

lemma resolve_company_user:
  "dict_get_default u' ''Country'' (JStr []) = dict_get_default u ''Country'' (JStr []) \<Longrightarrow>
   resolve_company e u' hs r b tr = resolve_company e u hs r b tr"
  unfolding resolve_company_def by (erule ssubst) (rule refl)

lemma try_same_after_validation:
  assumes "http_method req' = http_method req"
    "validate req = Next (d, u)" "validate req' = Next (d', u')"
    "hubspot_data e d' u' = hubspot_data e d u"
    "dict_get u' ''Email'' = dict_get u ''Email''"
    "dict_get_default u' ''Country'' (JStr []) = dict_get_default u ''Country'' (JStr [])"
  shows "HubspotAdd_try e req' = HubspotAdd_try e req"
  unfolding HubspotAdd_try_def assms(1-5) step.case prod.case
    resolve_company_user[OF assms(6)]
  by (rule refl)

text \<open>
  C8. Two requests whose bodies differ only in that one field of UserDetails is the empty
  string in one body and absent from the other are treated alike: the handler gives the
  same response and makes the same outbound calls, the required-field check has the same
  outcome, the same contact properties are built, and the territory classification is the
  same. This holds for any field, required or optional.
\<close>

theorem empty_and_absent_field_alike:
  assumes "http_method req' = http_method req"
    "req_body req = Parsed (JObj d)" "req_body req' = Parsed (JObj d')"
    "dict_get d ''UserDetails'' = Some (JObj u)"
    "dict_get d' ''UserDetails'' = Some (JObj u')"
    "\<forall>k'. k' \<noteq> ''UserDetails'' \<longrightarrow> dict_get d' k' = dict_get d k'"
    "dict_get u k = Some (JStr [])" "dict_get u' k = None"
    "\<forall>k'. k' \<noteq> k \<longrightarrow> dict_get u' k' = dict_get u k'"
  shows "HubspotAdd e req' = HubspotAdd e req
     \<and> first_missing required_fields u' = first_missing required_fields u
     \<and> hubspot_data e d' u' = hubspot_data e d u
     \<and> sales_office (dict_get_default u' ''Country'' (JStr []))
         = sales_office (dict_get_default u ''Country'' (JStr []))
     \<and> market_type (dict_get_default u' ''Country'' (JStr []))
         = market_type (dict_get_default u ''Country'' (JStr []))
     \<and> sales_account_manager (dict_get_default u' ''Country'' (JStr []))
         = sales_account_manager (dict_get_default u ''Country'' (JStr []))"
proof -
  have dflt: "dict_get_default u' f (JStr []) = dict_get_default u f (JStr [])" for f
    using assms(7-9) by (cases "f = k") (simp_all add: dict_get_default_def)
  have falsy: "falsy_field u' f = falsy_field u f" for f
    using assms(7-9) by (cases "f = k") (simp_all add: falsy_field_def)
  have missing: "first_missing fs u' = first_missing fs u" for fs
    by (induction fs) (simp_all add: falsy)
  have ddflt: "dict_get_default d' f x = dict_get_default d f x"
    if "f \<noteq> ''UserDetails''" for f x
    using assms(6) that by (simp add: dict_get_default_def)
  have offer: "dict_get_default d' ''OfferTitle'' x = dict_get_default d ''OfferTitle'' x" for x
    by (simp add: ddflt)
  have built: "contact_properties d' u' s c = contact_properties d u s c" for s c
    by (simp add: contact_properties_def dflt ddflt)
  have props: "hubspot_data e d' u' = hubspot_data e d u"
    unfolding hubspot_data_def offer built dflt by (rule refl)
  have v: "validate req =
      (case first_missing required_fields u of
         Some field \<Rightarrow> Return (json_response 400 (Message (''Required field missing: '' @ field)))
       | None \<Rightarrow> Next (d, u))"
    by (rule validate_object[OF assms(2,4)])
  have v': "validate req' =
      (case first_missing required_fields u of
         Some field \<Rightarrow> Return (json_response 400 (Message (''Required field missing: '' @ field)))
       | None \<Rightarrow> Next (d', u'))"
    using validate_object[OF assms(3,5)] by (simp add: missing)
  have "HubspotAdd_try e req' = HubspotAdd_try e req"
  proof (cases "first_missing required_fields u")
    case (Some field)
    with v v' assms(1) show ?thesis by (simp add: HubspotAdd_try_def)
  next
    case None
    then have "\<not> falsy_field u ''Email''"
      by (simp add: required_fields_def split: if_splits)
    with assms(7) have "k \<noteq> ''Email''"
      by (auto simp: falsy_field_def)
    with assms(9) have email: "dict_get u' ''Email'' = dict_get u ''Email''" by simp
    from None v v' have "validate req = Next (d, u)" "validate req' = Next (d', u')"
      by simp_all
    then show ?thesis
      using try_same_after_validation[OF assms(1) _ _ props email dflt] by blast
  qed
  then have "HubspotAdd e req' = HubspotAdd e req" by (simp add: HubspotAdd_def)
  with missing props dflt show ?thesis by simp
qed


theorem empty_and_absent_field_alike_witness:
  "HubspotAdd (sample_env (Some ''secret'') [answer 201 ''created'' (Inr (JObj [(''id'', JInt 42)]))])
     (post_of (JObj [(''UserDetails'',
        JObj [(''Email'', JStr ''ann@example.com''), (''FirstName'', JStr ''Ann''),
              (''LastName'', JStr ''Lee'')])]))
   = HubspotAdd (sample_env (Some ''secret'') [answer 201 ''created'' (Inr (JObj [(''id'', JInt 42)]))])
     (post_of (JObj [(''UserDetails'',
        JObj [(''Email'', JStr ''ann@example.com''), (''FirstName'', JStr ''Ann''),
              (''LastName'', JStr ''Lee''), (''Country'', JStr [])])]))
   \<and> HubspotAdd (sample_env (Some ''secret'') [])
     (post_of (JObj [(''UserDetails'', JObj [(''FirstName'', JStr ''Ann'')])]))
   = HubspotAdd (sample_env (Some ''secret'') [])
     (post_of (JObj [(''UserDetails'', JObj [(''Email'', JStr []), (''FirstName'', JStr ''Ann'')])]))"
  using
    empty_and_absent_field_alike [of
      "post_of (JObj [(''UserDetails'',
        JObj [(''Email'', JStr ''ann@example.com''), (''FirstName'', JStr ''Ann''),
              (''LastName'', JStr ''Lee'')])])"
      "post_of (JObj [(''UserDetails'',
        JObj [(''Email'', JStr ''ann@example.com''), (''FirstName'', JStr ''Ann''),
              (''LastName'', JStr ''Lee''), (''Country'', JStr [])])])"
      "[(''UserDetails'',
        JObj [(''Email'', JStr ''ann@example.com''), (''FirstName'', JStr ''Ann''),
              (''LastName'', JStr ''Lee''), (''Country'', JStr [])])]"
      "[(''UserDetails'',
        JObj [(''Email'', JStr ''ann@example.com''), (''FirstName'', JStr ''Ann''),
              (''LastName'', JStr ''Lee'')])]"
      "[(''Email'', JStr ''ann@example.com''), (''FirstName'', JStr ''Ann''),
              (''LastName'', JStr ''Lee''), (''Country'', JStr [])]"
      "[(''Email'', JStr ''ann@example.com''), (''FirstName'', JStr ''Ann''),
              (''LastName'', JStr ''Lee'')]"
      "''Country''"
      "sample_env (Some ''secret'') [answer 201 ''created'' (Inr (JObj [(''id'', JInt 42)]))]"]
    empty_and_absent_field_alike [of
      "post_of (JObj [(''UserDetails'', JObj [(''FirstName'', JStr ''Ann'')])])"
      "post_of (JObj [(''UserDetails'', JObj [(''Email'', JStr []), (''FirstName'', JStr ''Ann'')])])"
      "[(''UserDetails'', JObj [(''Email'', JStr []), (''FirstName'', JStr ''Ann'')])]"
      "[(''UserDetails'', JObj [(''FirstName'', JStr ''Ann'')])]"
      "[(''Email'', JStr []), (''FirstName'', JStr ''Ann'')]"
      "[(''FirstName'', JStr ''Ann'')]"
      "''Email''"
      "sample_env (Some ''secret'') []"]
  by (simp add: post_of_def dict_get_def)

section \<open>The poll on concrete runs\<close>

lemmas run_defs = wait_for_company_association_def try_attempt_def association_attempt_def
  except_clause_def time_sleep_def send_def sample_env_def script_def answer_def dict_get_def

text \<open>
  C2. The poll at work on two runs of three attempts with initial delay 2. When every
  association call fails in transport, the function waits 2 and then 2 again: the
  \<^verbatim>\<open>except\<close> clause sleeps but leaves the delay as it is. When every call is answered
  404 it waits 2 and then 3, the delay being multiplied by 1.5 after each wait. Both runs
  return None (\<open>JNull\<close>) after the third attempt.
\<close>

theorem transport_error_keeps_delay:
  "wait_for_company_association (sample_env None []) (JInt 42) [] 3 2 [] =
     (Inr JNull,
      [HttpGet (AssociationsUrl (JInt 42)) [], Sleep 2,
       HttpGet (AssociationsUrl (JInt 42)) [], Sleep 2,
       HttpGet (AssociationsUrl (JInt 42)) []])
   \<and> wait_for_company_association
       (sample_env None [answer 404 ''Not Found'' (Inr JNull), answer 404 ''Not Found'' (Inr JNull),
                         answer 404 ''Not Found'' (Inr JNull)])
       (JInt 42) [] 3 2 [] =
     (Inr JNull,
      [HttpGet (AssociationsUrl (JInt 42)) [], Sleep 2,
       HttpGet (AssociationsUrl (JInt 42)) [], Sleep 3,
       HttpGet (AssociationsUrl (JInt 42)) []])"
  by (simp add: run_defs)


section \<open>The company update and the flag of the response\<close>

lemma update_outcome_not_in_response:
  "HubspotAdd
     (sample_env (Some ''secret'')
        [answer 201 ''created'' (Inr (JObj [(''id'', JInt 42)])),
         answer 200 ''found''
           (Inr (JObj [(''results'', JArr [JObj [(''toObjectId'', JInt 99)]])])),
         answer code ''company'' (Inr JNull)])
     sample_request
   = (json_response 200
        (Processed ''Lead processed successfully'' ''2024-05-01T12:00:00'' True),
      [HttpPost ContactsUrl (bearer_headers ''secret'') sample_properties,
       HttpGet (AssociationsUrl (JInt 42)) (bearer_headers ''secret''),
       HttpPatch (CompanyUrl (JInt 99)) (bearer_headers ''secret'')
         (company_update_data (JStr ''US'') (Some ''United States''))])
   \<and> fst (update_company_properties
        (sample_env (Some ''secret'')
          [answer 201 ''created'' (Inr (JObj [(''id'', JInt 42)])),
           answer 200 ''found''
             (Inr (JObj [(''results'', JArr [JObj [(''toObjectId'', JInt 99)]])])),
           answer code ''company'' (Inr JNull)])
        (JInt 99) (JStr ''US'') (bearer_headers ''secret'')
        [HttpPost ContactsUrl (bearer_headers ''secret'') sample_properties,
         HttpGet (AssociationsUrl (JInt 42)) (bearer_headers ''secret'')])
     = (code = 200)"
proof -
  let ?e = "sample_env (Some ''secret'')
        [answer 201 ''created'' (Inr (JObj [(''id'', JInt 42)])),
         answer 200 ''found''
           (Inr (JObj [(''results'', JArr [JObj [(''toObjectId'', JInt 99)]])])),
         answer code ''company'' (Inr JNull)]"
  have tok: "token ?e = Some ''secret''" by (simp add: sample_env_def)
  have run: "HubspotAdd_try ?e sample_request =
      resolve_company ?e sample_user (bearer_headers ''secret'')
        \<lparr>crm_status = 201, crm_text = ''created'', crm_json = Inr (JObj [(''id'', JInt 42)])\<rparr>
        True [HttpPost ContactsUrl (bearer_headers ''secret'') sample_properties]"
    using try_from_create[OF _ sample_validate sample_hubspot_data tok]
    by (simp add: sample_request_def post_of_def sample_env_def script_def answer_def)
  have upd: "update_company_properties ?e (JInt 99) (JStr ''US'') (bearer_headers ''secret'')
        [HttpPost ContactsUrl (bearer_headers ''secret'') sample_properties,
         HttpGet (AssociationsUrl (JInt 42)) (bearer_headers ''secret'')]
      = (code = 200,
         [HttpPost ContactsUrl (bearer_headers ''secret'') sample_properties,
          HttpGet (AssociationsUrl (JInt 42)) (bearer_headers ''secret''),
          HttpPatch (CompanyUrl (JInt 99)) (bearer_headers ''secret'')
            (company_update_data (JStr ''US'') (Some ''United States''))])"
    by (simp add: update_company_properties_def lookup_country_def iso_names_def run_defs)
  have "resolve_company ?e sample_user (bearer_headers ''secret'')
        \<lparr>crm_status = 201, crm_text = ''created'', crm_json = Inr (JObj [(''id'', JInt 42)])\<rparr>
        True [HttpPost ContactsUrl (bearer_headers ''secret'') sample_properties]
      = (Inr (json_response 200
           (Processed ''Lead processed successfully'' ''2024-05-01T12:00:00'' True)),
         [HttpPost ContactsUrl (bearer_headers ''secret'') sample_properties,
          HttpGet (AssociationsUrl (JInt 42)) (bearer_headers ''secret''),
          HttpPatch (CompanyUrl (JInt 99)) (bearer_headers ''secret'')
            (company_update_data (JStr ''US'') (Some ''United States''))])"
    using upd
    by (simp add: resolve_company_def contact_id_of_def dict_get_default_def sample_user_def
        run_defs)
  with run have "HubspotAdd_try ?e sample_request =
      (Inr (json_response 200
           (Processed ''Lead processed successfully'' ''2024-05-01T12:00:00'' True)),
         [HttpPost ContactsUrl (bearer_headers ''secret'') sample_properties,
          HttpGet (AssociationsUrl (JInt 42)) (bearer_headers ''secret''),
          HttpPatch (CompanyUrl (JInt 99)) (bearer_headers ''secret'')
            (company_update_data (JStr ''US'') (Some ''United States''))])"
    by simp
  then show ?thesis using upd by (simp add: HubspotAdd_Inr)
qed

text \<open>
  C1. A request that reaches the company update with the company id 99 resolved, and whose
  update call is answered 500: \<^verbatim>\<open>update_company_properties\<close> returns False, the handler
  still answers 200, and the field \<^verbatim>\<open>company_updated\<close> of the body is True; the
  response is the same as when the update call is answered 200.
\<close>

theorem company_updated_true_after_failed_update:
  "\<not> fst (update_company_properties
        (sample_env (Some ''secret'')
          [answer 201 ''created'' (Inr (JObj [(''id'', JInt 42)])),
           answer 200 ''found''
             (Inr (JObj [(''results'', JArr [JObj [(''toObjectId'', JInt 99)]])])),
           answer 500 ''company'' (Inr JNull)])
        (JInt 99) (JStr ''US'') (bearer_headers ''secret'')
        [HttpPost ContactsUrl (bearer_headers ''secret'') sample_properties,
         HttpGet (AssociationsUrl (JInt 42)) (bearer_headers ''secret'')])
   \<and> fst (HubspotAdd
     (sample_env (Some ''secret'')
        [answer 201 ''created'' (Inr (JObj [(''id'', JInt 42)])),
         answer 200 ''found''
           (Inr (JObj [(''results'', JArr [JObj [(''toObjectId'', JInt 99)]])])),
         answer 500 ''company'' (Inr JNull)])
     sample_request)
     = json_response 200
        (Processed ''Lead processed successfully'' ''2024-05-01T12:00:00'' True)
   \<and> fst (HubspotAdd
     (sample_env (Some ''secret'')
        [answer 201 ''created'' (Inr (JObj [(''id'', JInt 42)])),
         answer 200 ''found''
           (Inr (JObj [(''results'', JArr [JObj [(''toObjectId'', JInt 99)]])])),
         answer 500 ''company'' (Inr JNull)])
     sample_request)
     = fst (HubspotAdd
     (sample_env (Some ''secret'')
        [answer 201 ''created'' (Inr (JObj [(''id'', JInt 42)])),
         answer 200 ''found''
           (Inr (JObj [(''results'', JArr [JObj [(''toObjectId'', JInt 99)]])])),
         answer 200 ''company'' (Inr JNull)])
     sample_request)"
  using update_outcome_not_in_response[of 500] update_outcome_not_in_response[of 200]
  by simp

end
